theory Spec2Isabelle
  imports Main
begin

section \<open>Build configuration, exceptions and outcomes of a call\<close>

text \<open>
  The header \<^verbatim>\<open>mutex.hpp\<close> is configured by two preprocessor conditions:
  \<^verbatim>\<open>KHMZ_DISABLE_THROW\<close> (whether \<^verbatim>\<open>khmz_throw(e)\<close> is \<^verbatim>\<open>throw (e)\<close> or the empty
  statement \<^verbatim>\<open>do { } while (0)\<close>) and \<^verbatim>\<open>__cplusplus >= 201103L\<close> (whether
  \<^verbatim>\<open>khmz_noexcept\<close> is \<^verbatim>\<open>noexcept\<close> or empty).
\<close>

record config =
  KHMZ_DISABLE_THROW :: bool
  cplusplus :: nat

text \<open>The only exception class the header throws is \<^verbatim>\<open>std::runtime_error\<close>.\<close>

datatype exn = runtime_error string

text \<open>
  How a call ends, with the state it leaves: it returns a value, it throws, the calling
  thread stays blocked inside it, the program is terminated (\<^verbatim>\<open>std::terminate\<close>, an
  exception leaving a \<^verbatim>\<open>noexcept\<close> function), or the behaviour is undefined (a null
  pointer is dereferenced, a critical section is left by a thread that does not own it).
\<close>

datatype ('a, 's) outcome =
    Returns 'a 's
  | Throws exn 's
  | Blocks 's
  | Terminates 's
  | Undefined

text \<open>
  \<^verbatim>\<open>khmz_throw(e)\<close> followed by the rest of the function body: under
  \<^verbatim>\<open>KHMZ_DISABLE_THROW\<close> the macro is an empty statement and control falls through
  to the rest.
\<close>

definition khmz_throw :: "config \<Rightarrow> exn \<Rightarrow> 's \<Rightarrow> ('a, 's) outcome \<Rightarrow> ('a, 's) outcome" where
  "khmz_throw cfg e s rest = (if KHMZ_DISABLE_THROW cfg then rest else Throws e s)"

text \<open>A function declared \<^verbatim>\<open>khmz_noexcept\<close>: from C++11 on an escaping exception terminates.\<close>

definition khmz_noexcept :: "config \<Rightarrow> ('a, 's) outcome \<Rightarrow> ('a, 's) outcome" where
  "khmz_noexcept cfg r =
     (if 201103 \<le> cplusplus cfg
      then (case r of Throws e s \<Rightarrow> Terminates s | _ \<Rightarrow> r)
      else r)"

text \<open>The two settings of \<^verbatim>\<open>KHMZ_DISABLE_THROW\<close>, for a C++11 compiler.\<close>

definition default_config :: config where
  "default_config = \<lparr>KHMZ_DISABLE_THROW = False, cplusplus = 201103\<rparr>"

definition silent_config :: config where
  "silent_config = \<lparr>KHMZ_DISABLE_THROW = True, cplusplus = 201103\<rparr>"

section \<open>The native primitives\<close>

type_synonym tid = nat

text \<open>
  The native functions and constants of \<^verbatim>\<open>windows.h\<close> that the header calls are not
  part of the repository; each is modelled from the spec.
\<close>

text \<open>
  Modelled from the spec: the results of a wait (\<^verbatim>\<open>WAIT_OBJECT_0\<close> and the other values
  of \<^verbatim>\<open>windows.h\<close>, missing from the sources): clean ownership, abandonment, time-out
  or error.
\<close>

datatype wait_result = WAIT_OBJECT_0 | WAIT_ABANDONED | WAIT_TIMEOUT | WAIT_FAILED

text \<open>
  Modelled from the spec: the kernel mutual-exclusion object behind a \<^verbatim>\<open>HANDLE\<close>
  (missing from the sources): unowned, owned by a thread, or abandoned. \<open>None\<close> is the
  null handle that a failed \<^verbatim>\<open>CreateMutex\<close> returns.
\<close>

datatype kernel_mutex = Unowned | Owned tid | Abandoned

type_synonym HANDLE = "kernel_mutex option"

text \<open>Modelled from the spec: the constant \<^verbatim>\<open>INFINITE\<close> of \<^verbatim>\<open>windows.h\<close>, the wait without time-out.\<close>

definition INFINITE :: nat where
  "INFINITE = 4294967295"

text \<open>
  Modelled from the spec: \<^verbatim>\<open>WaitForSingleObject\<close> on a kernel mutual-exclusion object
  (missing from the sources). The wait on an unowned object ends in clean ownership by
  the caller; on an abandoned object it reports abandonment; on the null handle it
  reports an error. On an owned object it times out, or with the time-out \<open>INFINITE\<close>
  does not return (\<open>None\<close>): following section 5 of the spec (the Basic Lock is
  non-reentrant), whoever the owner is.
\<close>

definition WaitForSingleObject :: "tid \<Rightarrow> HANDLE \<Rightarrow> nat \<Rightarrow> (wait_result \<times> HANDLE) option" where
  "WaitForSingleObject t h ms =
     (case h of
        None \<Rightarrow> Some (WAIT_FAILED, h)
      | Some Unowned \<Rightarrow> Some (WAIT_OBJECT_0, Some (Owned t))
      | Some Abandoned \<Rightarrow> Some (WAIT_ABANDONED, Some (Owned t))
      | Some (Owned u) \<Rightarrow> if ms = INFINITE then None else Some (WAIT_TIMEOUT, h))"

text \<open>
  Modelled from the spec: \<^verbatim>\<open>ReleaseMutex\<close> (missing from the sources). The release
  relinquishes ownership and fails unless the caller owns the object.
\<close>

definition ReleaseMutex :: "tid \<Rightarrow> HANDLE \<Rightarrow> bool \<times> HANDLE" where
  "ReleaseMutex t h =
     (case h of
        Some (Owned u) \<Rightarrow> if u = t then (True, Some Unowned) else (False, h)
      | _ \<Rightarrow> (False, h))"

text \<open>
  Modelled from the spec: the in-process critical-section record \<^verbatim>\<open>CRITICAL_SECTION\<close>
  (missing from the sources), with an owner and a recursion count.
\<close>

record CRITICAL_SECTION =
  OwningThread :: "tid option"
  RecursionCount :: int

text \<open>Modelled from the spec: \<^verbatim>\<open>InitializeCriticalSection\<close> (missing from the sources); the section starts free.\<close>

definition InitializeCriticalSection :: CRITICAL_SECTION where
  "InitializeCriticalSection = \<lparr>OwningThread = None, RecursionCount = 0\<rparr>"

text \<open>
  Modelled from the spec: \<^verbatim>\<open>TryEnterCriticalSection\<close> (missing from the sources). The
  attempt succeeds on a free section and, incrementing the recursion count, on a section
  the caller owns; it fails on a section another thread owns.
\<close>

definition TryEnterCriticalSection :: "tid \<Rightarrow> CRITICAL_SECTION \<Rightarrow> bool \<times> CRITICAL_SECTION" where
  "TryEnterCriticalSection t cs =
     (case OwningThread cs of
        None \<Rightarrow> (True, \<lparr>OwningThread = Some t, RecursionCount = 1\<rparr>)
      | Some u \<Rightarrow>
          if u = t then (True, cs\<lparr>RecursionCount := RecursionCount cs + 1\<rparr>)
          else (False, cs))"

text \<open>
  Modelled from the spec: \<^verbatim>\<open>EnterCriticalSection\<close> (missing from the sources). It
  enters as the attempt does and does not return (\<open>None\<close>) while another thread owns
  the section.
\<close>

definition EnterCriticalSection :: "tid \<Rightarrow> CRITICAL_SECTION \<Rightarrow> CRITICAL_SECTION option" where
  "EnterCriticalSection t cs =
     (case TryEnterCriticalSection t cs of
        (True, cs') \<Rightarrow> Some cs'
      | (False, _) \<Rightarrow> None)"

text \<open>
  Modelled from the spec: \<^verbatim>\<open>LeaveCriticalSection\<close> (missing from the sources). It
  decrements the recursion count and frees the section when the count reaches zero;
  leaving a section the caller does not own is undefined behaviour (\<open>None\<close>).
\<close>

definition LeaveCriticalSection :: "tid \<Rightarrow> CRITICAL_SECTION \<Rightarrow> CRITICAL_SECTION option" where
  "LeaveCriticalSection t cs =
     (if OwningThread cs = Some t
      then (if RecursionCount cs - 1 = 0
            then Some \<lparr>OwningThread = None, RecursionCount = 0\<rparr>
            else Some (cs\<lparr>RecursionCount := RecursionCount cs - 1\<rparr>))
      else None)"

section \<open>\<^verbatim>\<open>khmz::mutex\<close>\<close>

record mutex =
  m_hMutex :: HANDLE

definition mutex_lock :: "config \<Rightarrow> tid \<Rightarrow> mutex \<Rightarrow> (unit, mutex) outcome" where
  "mutex_lock cfg t m =
     (case WaitForSingleObject t (m_hMutex m) INFINITE of
        None \<Rightarrow> Blocks m
      | Some (dwWaitResult, h) \<Rightarrow>
          if dwWaitResult \<noteq> WAIT_OBJECT_0
          then khmz_throw cfg (runtime_error ''Failed to lock mutex at khmz::mutex::lock'')
                 (m\<lparr>m_hMutex := h\<rparr>) (Returns () (m\<lparr>m_hMutex := h\<rparr>))
          else Returns () (m\<lparr>m_hMutex := h\<rparr>))"

definition mutex_unlock :: "config \<Rightarrow> tid \<Rightarrow> mutex \<Rightarrow> (unit, mutex) outcome" where
  "mutex_unlock cfg t m =
     (case ReleaseMutex t (m_hMutex m) of
        (released, h) \<Rightarrow>
          if \<not> released
          then khmz_throw cfg (runtime_error ''Failed to release mutex at khmz::mutex::unlock'')
                 (m\<lparr>m_hMutex := h\<rparr>) (Returns () (m\<lparr>m_hMutex := h\<rparr>))
          else Returns () (m\<lparr>m_hMutex := h\<rparr>))"

definition mutex_try_lock :: "config \<Rightarrow> tid \<Rightarrow> mutex \<Rightarrow> (bool, mutex) outcome" where
  "mutex_try_lock cfg t m =
     khmz_noexcept cfg
       (case WaitForSingleObject t (m_hMutex m) 0 of
          None \<Rightarrow> Blocks m
        | Some (dwWaitResult, h) \<Rightarrow> Returns (dwWaitResult = WAIT_OBJECT_0) (m\<lparr>m_hMutex := h\<rparr>))"

section \<open>\<^verbatim>\<open>khmz::recursive_mutex\<close>\<close>

record recursive_mutex =
  m_cs :: CRITICAL_SECTION

definition recursive_mutex_ctor :: recursive_mutex where
  "recursive_mutex_ctor = \<lparr>m_cs = InitializeCriticalSection\<rparr>"

definition recursive_mutex_lock :: "config \<Rightarrow> tid \<Rightarrow> recursive_mutex \<Rightarrow> (unit, recursive_mutex) outcome" where
  "recursive_mutex_lock cfg t m =
     khmz_noexcept cfg
       (case EnterCriticalSection t (m_cs m) of
          None \<Rightarrow> Blocks m
        | Some cs \<Rightarrow> Returns () (m\<lparr>m_cs := cs\<rparr>))"

definition recursive_mutex_unlock :: "config \<Rightarrow> tid \<Rightarrow> recursive_mutex \<Rightarrow> (unit, recursive_mutex) outcome" where
  "recursive_mutex_unlock cfg t m =
     khmz_noexcept cfg
       (case LeaveCriticalSection t (m_cs m) of
          None \<Rightarrow> Undefined
        | Some cs \<Rightarrow> Returns () (m\<lparr>m_cs := cs\<rparr>))"

definition recursive_mutex_try_lock :: "config \<Rightarrow> tid \<Rightarrow> recursive_mutex \<Rightarrow> (bool, recursive_mutex) outcome" where
  "recursive_mutex_try_lock cfg t m =
     khmz_noexcept cfg
       (case TryEnterCriticalSection t (m_cs m) of
          (entered, cs) \<Rightarrow> Returns entered (m\<lparr>m_cs := cs\<rparr>))"

text \<open>The recursive lock held \<open>n\<close> times by the thread \<open>t\<close>; free when \<open>n = 0\<close>.\<close>

definition recursive_mutex_held :: "tid \<Rightarrow> nat \<Rightarrow> recursive_mutex" where
  "recursive_mutex_held t n =
     \<lparr>m_cs = \<lparr>OwningThread = (if n = 0 then None else Some t), RecursionCount = int n\<rparr>\<rparr>"

text \<open>\<open>k\<close> nested acquires, and \<open>k\<close> releases, by one thread; the first call that does not return ends the sequence.\<close>

fun recursive_mutex_lock_times :: "nat \<Rightarrow> config \<Rightarrow> tid \<Rightarrow> recursive_mutex \<Rightarrow> (unit, recursive_mutex) outcome" where
  "recursive_mutex_lock_times 0 cfg t m = Returns () m"
| "recursive_mutex_lock_times (Suc k) cfg t m =
     (case recursive_mutex_lock cfg t m of
        Returns _ m' \<Rightarrow> recursive_mutex_lock_times k cfg t m'
      | r \<Rightarrow> r)"

fun recursive_mutex_unlock_times :: "nat \<Rightarrow> config \<Rightarrow> tid \<Rightarrow> recursive_mutex \<Rightarrow> (unit, recursive_mutex) outcome" where
  "recursive_mutex_unlock_times 0 cfg t m = Returns () m"
| "recursive_mutex_unlock_times (Suc k) cfg t m =
     (case recursive_mutex_unlock cfg t m of
        Returns _ m' \<Rightarrow> recursive_mutex_unlock_times k cfg t m'
      | r \<Rightarrow> r)"

section \<open>The template parameter \<^verbatim>\<open>T_MUTEX\<close> and the objects the guards refer to\<close>

text \<open>
  The guards are templates over the lock type and use its members \<^verbatim>\<open>lock\<close>,
  \<^verbatim>\<open>unlock\<close> and \<^verbatim>\<open>try_lock\<close> only. The members are taken as called by the thread
  that runs the guard.
\<close>

record 'm T_MUTEX =
  T_lock :: "'m \<Rightarrow> (unit, 'm) outcome"
  T_unlock :: "'m \<Rightarrow> (unit, 'm) outcome"
  T_try_lock :: "'m \<Rightarrow> (bool, 'm) outcome"

definition khmz_mutex :: "config \<Rightarrow> tid \<Rightarrow> mutex T_MUTEX" where
  "khmz_mutex cfg t =
     \<lparr>T_lock = mutex_lock cfg t, T_unlock = mutex_unlock cfg t, T_try_lock = mutex_try_lock cfg t\<rparr>"

definition khmz_recursive_mutex :: "config \<Rightarrow> tid \<Rightarrow> recursive_mutex T_MUTEX" where
  "khmz_recursive_mutex cfg t =
     \<lparr>T_lock = recursive_mutex_lock cfg t, T_unlock = recursive_mutex_unlock cfg t,
      T_try_lock = recursive_mutex_try_lock cfg t\<rparr>"

text \<open>
  A guard holds a reference or a pointer to a lock object, so the lock objects live in a
  store indexed by address. The store also records, in order, every member call made on
  a lock object.
\<close>

type_synonym addr = nat

datatype call = Lock addr | TryLock addr | Unlock addr

record 'm world =
  objs :: "addr \<Rightarrow> 'm"
  calls :: "call list"

text \<open>The store after the call \<open>c\<close> on the lock object at \<open>p\<close>, which the call leaves as \<open>m'\<close>.\<close>

definition after_call :: "call \<Rightarrow> addr \<Rightarrow> 'm world \<Rightarrow> 'm \<Rightarrow> 'm world" where
  "after_call c p w m' = \<lparr>objs = (objs w)(p := m'), calls = calls w @ [c]\<rparr>"

definition member_call ::
  "call \<Rightarrow> addr \<Rightarrow> ('m \<Rightarrow> ('a, 'm) outcome) \<Rightarrow> 'm world \<Rightarrow> ('a, 'm world) outcome" where
  "member_call c p f w =
     (case f (objs w p) of
        Returns a m' \<Rightarrow> Returns a (after_call c p w m')
      | Throws e m' \<Rightarrow> Throws e (after_call c p w m')
      | Blocks m' \<Rightarrow> Blocks (after_call c p w m')
      | Terminates m' \<Rightarrow> Terminates (after_call c p w m')
      | Undefined \<Rightarrow> Undefined)"

text \<open>The state a call leaves, when its behaviour is defined.\<close>

fun outcome_state :: "('a, 's) outcome \<Rightarrow> 's option" where
  "outcome_state (Returns a s) = Some s"
| "outcome_state (Throws e s) = Some s"
| "outcome_state (Blocks s) = Some s"
| "outcome_state (Terminates s) = Some s"
| "outcome_state Undefined = None"

text \<open>A store in which every address holds a lock object in the state \<open>m\<close>, before any call.\<close>

definition fresh_world :: "'m \<Rightarrow> 'm world" where
  "fresh_world m = \<lparr>objs = (\<lambda>p. m), calls = []\<rparr>"

section \<open>\<^verbatim>\<open>khmz::lock_guard\<close>\<close>

record lock_guard =
  lg_m_mutex :: addr

definition lock_guard_ctor ::
  "config \<Rightarrow> 'm T_MUTEX \<Rightarrow> addr \<Rightarrow> 'm world \<Rightarrow> (lock_guard, 'm world) outcome" where
  "lock_guard_ctor cfg T m w =
     khmz_noexcept cfg
       (case member_call (Lock m) m (T_lock T) w of
          Returns _ w' \<Rightarrow> Returns \<lparr>lg_m_mutex = m\<rparr> w'
        | Throws e w' \<Rightarrow> Throws e w'
        | Blocks w' \<Rightarrow> Blocks w'
        | Terminates w' \<Rightarrow> Terminates w'
        | Undefined \<Rightarrow> Undefined)"

definition lock_guard_dtor ::
  "config \<Rightarrow> 'm T_MUTEX \<Rightarrow> lock_guard \<Rightarrow> 'm world \<Rightarrow> (unit, 'm world) outcome" where
  "lock_guard_dtor cfg T g w =
     khmz_noexcept cfg (member_call (Unlock (lg_m_mutex g)) (lg_m_mutex g) (T_unlock T) w)"

text \<open>
  The block \<^verbatim>\<open>{ lock_guard<T_MUTEX> g(m); body }\<close>: the guard is constructed, the body
  runs, and the guard is destroyed when the body leaves the block by returning or by
  throwing (an exception that leaves the destructor during unwinding terminates). A
  body that does not leave the block never reaches the destructor.
\<close>

definition lock_guard_scope ::
  "config \<Rightarrow> 'm T_MUTEX \<Rightarrow> addr \<Rightarrow> ('m world \<Rightarrow> ('a, 'm world) outcome) \<Rightarrow> 'm world
     \<Rightarrow> ('a, 'm world) outcome" where
  "lock_guard_scope cfg T m body w =
     (case lock_guard_ctor cfg T m w of
        Returns g w1 \<Rightarrow>
          (case body w1 of
             Returns a w2 \<Rightarrow>
               (case lock_guard_dtor cfg T g w2 of
                  Returns _ w3 \<Rightarrow> Returns a w3
                | Throws e w3 \<Rightarrow> Throws e w3
                | Blocks w3 \<Rightarrow> Blocks w3
                | Terminates w3 \<Rightarrow> Terminates w3
                | Undefined \<Rightarrow> Undefined)
           | Throws e w2 \<Rightarrow>
               (case lock_guard_dtor cfg T g w2 of
                  Returns _ w3 \<Rightarrow> Throws e w3
                | Throws _ w3 \<Rightarrow> Terminates w3
                | Blocks w3 \<Rightarrow> Blocks w3
                | Terminates w3 \<Rightarrow> Terminates w3
                | Undefined \<Rightarrow> Undefined)
           | Blocks w2 \<Rightarrow> Blocks w2
           | Terminates w2 \<Rightarrow> Terminates w2
           | Undefined \<Rightarrow> Undefined)
      | Throws e w1 \<Rightarrow> Throws e w1
      | Blocks w1 \<Rightarrow> Blocks w1
      | Terminates w1 \<Rightarrow> Terminates w1
      | Undefined \<Rightarrow> Undefined)"

section \<open>\<^verbatim>\<open>khmz::unique_lock\<close>\<close>

text \<open>\<open>m_mutex = None\<close> is the null pointer.\<close>

record unique_lock =
  m_mutex :: "addr option"
  m_owns_lock :: bool

definition unique_lock_ctor ::
  "config \<Rightarrow> 'm T_MUTEX \<Rightarrow> addr \<Rightarrow> 'm world \<Rightarrow> (unique_lock, 'm world) outcome" where
  "unique_lock_ctor cfg T m w =
     khmz_noexcept cfg
       (case member_call (Lock m) m (T_lock T) w of
          Returns _ w' \<Rightarrow> Returns \<lparr>m_mutex = Some m, m_owns_lock = True\<rparr> w'
        | Throws e w' \<Rightarrow> Throws e w'
        | Blocks w' \<Rightarrow> Blocks w'
        | Terminates w' \<Rightarrow> Terminates w'
        | Undefined \<Rightarrow> Undefined)"

definition unique_lock_default_ctor :: unique_lock where
  "unique_lock_default_ctor = \<lparr>m_mutex = None, m_owns_lock = False\<rparr>"

text \<open>The move constructor returns the new guard and the guard moved from.\<close>

definition unique_lock_move_ctor :: "unique_lock \<Rightarrow> unique_lock \<times> unique_lock" where
  "unique_lock_move_ctor other =
     (\<lparr>m_mutex = m_mutex other, m_owns_lock = m_owns_lock other\<rparr>,
      other\<lparr>m_mutex := None, m_owns_lock := False\<rparr>)"

text \<open>
  Move assignment compares the addresses of the two guards, so the guards live in a store
  of their own, indexed by address.
\<close>

definition unique_lock_move_assign ::
  "config \<Rightarrow> 'm T_MUTEX \<Rightarrow> addr \<Rightarrow> addr \<Rightarrow> (addr \<Rightarrow> unique_lock) \<Rightarrow> 'm world
     \<Rightarrow> (unit, (addr \<Rightarrow> unique_lock) \<times> 'm world) outcome" where
  "unique_lock_move_assign cfg T this other gs w =
     khmz_noexcept cfg
       (if this \<noteq> other
        then
          (case (if m_owns_lock (gs this) then m_mutex (gs this) else None) of
             Some p \<Rightarrow>
               (case member_call (Unlock p) p (T_unlock T) w of
                  Returns _ w' \<Rightarrow>
                    Returns ()
                      ((gs(this := gs other))(other := \<lparr>m_mutex = None, m_owns_lock = False\<rparr>), w')
                | Throws e w' \<Rightarrow> Throws e (gs, w')
                | Blocks w' \<Rightarrow> Blocks (gs, w')
                | Terminates w' \<Rightarrow> Terminates (gs, w')
                | Undefined \<Rightarrow> Undefined)
           | None \<Rightarrow>
               Returns ()
                 ((gs(this := gs other))(other := \<lparr>m_mutex = None, m_owns_lock = False\<rparr>), w))
        else Returns () (gs, w))"

text \<open>A store of guards in which every address holds a guard in the state \<open>g\<close>.\<close>

definition guards_all :: "unique_lock \<Rightarrow> addr \<Rightarrow> unique_lock" where
  "guards_all g = (\<lambda>a. g)"

definition unique_lock_dtor ::
  "config \<Rightarrow> 'm T_MUTEX \<Rightarrow> unique_lock \<Rightarrow> 'm world \<Rightarrow> (unit, 'm world) outcome" where
  "unique_lock_dtor cfg T g w =
     khmz_noexcept cfg
       (if m_owns_lock g
        then (case m_mutex g of
                None \<Rightarrow> Undefined
              | Some p \<Rightarrow> member_call (Unlock p) p (T_unlock T) w)
        else Returns () w)"

definition unique_lock_lock ::
  "config \<Rightarrow> 'm T_MUTEX \<Rightarrow> unique_lock \<Rightarrow> 'm world \<Rightarrow> (unit, unique_lock \<times> 'm world) outcome" where
  "unique_lock_lock cfg T g w =
     (let acquire =
        (case m_mutex g of
           None \<Rightarrow> Undefined
         | Some p \<Rightarrow>
             (case member_call (Lock p) p (T_lock T) w of
                Returns _ w' \<Rightarrow> Returns () (g\<lparr>m_owns_lock := True\<rparr>, w')
              | Throws e w' \<Rightarrow>
                  Throws e (if KHMZ_DISABLE_THROW cfg then g else g\<lparr>m_owns_lock := False\<rparr>, w')
              | Blocks w' \<Rightarrow> Blocks (g, w')
              | Terminates w' \<Rightarrow> Terminates (g, w')
              | Undefined \<Rightarrow> Undefined))
      in if m_owns_lock g
         then khmz_throw cfg (runtime_error ''Lock already owned at khmz::unique_lock::lock'')
                (g, w) acquire
         else acquire)"

definition unique_lock_try_lock ::
  "config \<Rightarrow> 'm T_MUTEX \<Rightarrow> unique_lock \<Rightarrow> 'm world \<Rightarrow> (bool, unique_lock \<times> 'm world) outcome" where
  "unique_lock_try_lock cfg T g w =
     (let attempt =
        (case m_mutex g of
           None \<Rightarrow> Undefined
         | Some p \<Rightarrow>
             (case member_call (TryLock p) p (T_try_lock T) w of
                Returns b w' \<Rightarrow> Returns b (g\<lparr>m_owns_lock := b\<rparr>, w')
              | Throws e w' \<Rightarrow> Throws e (g, w')
              | Blocks w' \<Rightarrow> Blocks (g, w')
              | Terminates w' \<Rightarrow> Terminates (g, w')
              | Undefined \<Rightarrow> Undefined))
      in if m_owns_lock g
         then khmz_throw cfg (runtime_error ''Lock already owned at khmz::unique_lock::try_lock'')
                (g, w) attempt
         else attempt)"

definition unique_lock_unlock ::
  "config \<Rightarrow> 'm T_MUTEX \<Rightarrow> unique_lock \<Rightarrow> 'm world \<Rightarrow> (unit, unique_lock \<times> 'm world) outcome" where
  "unique_lock_unlock cfg T g w =
     (let release_it =
        (case m_mutex g of
           None \<Rightarrow> Undefined
         | Some p \<Rightarrow>
             (case member_call (Unlock p) p (T_unlock T) w of
                Returns _ w' \<Rightarrow> Returns () (g\<lparr>m_owns_lock := False\<rparr>, w')
              | Throws e w' \<Rightarrow> Throws e (g, w')
              | Blocks w' \<Rightarrow> Blocks (g, w')
              | Terminates w' \<Rightarrow> Terminates (g, w')
              | Undefined \<Rightarrow> Undefined))
      in if \<not> m_owns_lock g
         then khmz_throw cfg (runtime_error ''No lock to release at khmz::unique_lock::unlock'')
                (g, w) release_it
         else release_it)"

definition unique_lock_release ::
  "config \<Rightarrow> unique_lock \<Rightarrow> 'm world \<Rightarrow> (unit, unique_lock \<times> 'm world) outcome" where
  "unique_lock_release cfg g w =
     khmz_noexcept cfg (Returns () (g\<lparr>m_mutex := None, m_owns_lock := False\<rparr>, w))"

definition unique_lock_owns_lock :: "unique_lock \<Rightarrow> bool" where
  "unique_lock_owns_lock g = m_owns_lock g"

section \<open>Auxiliary facts\<close>

lemma after_call_differs: "after_call c p w m' \<noteq> w"
proof
  assume "after_call c p w m' = w"
  then have "calls (after_call c p w m') = calls w" by simp
  then show False by (simp add: after_call_def)
qed

lemma outcome_state_noexcept: "outcome_state (khmz_noexcept cfg r) = outcome_state r"
  by (cases r) (simp_all add: khmz_noexcept_def)

lemma outcome_state_member_call:
  "outcome_state (member_call c p f w) = map_option (after_call c p w) (outcome_state (f (objs w p)))"
  by (cases "f (objs w p)") (simp_all add: member_call_def)

lemma mutex_lock_message:
  "mutex_lock cfg t m \<noteq> Throws (runtime_error ''Lock already owned at khmz::unique_lock::lock'') m'"
  by (auto simp: mutex_lock_def khmz_throw_def split: option.splits)

lemma mutex_unlock_message:
  "mutex_unlock cfg t m \<noteq> Throws (runtime_error ''No lock to release at khmz::unique_lock::unlock'') m'"
  by (auto simp: mutex_unlock_def khmz_throw_def split: prod.splits)

lemma recursive_mutex_ctor_held: "recursive_mutex_ctor = recursive_mutex_held t 0"
  by (simp add: recursive_mutex_ctor_def recursive_mutex_held_def InitializeCriticalSection_def)

lemma recursive_mutex_lock_held:
  "recursive_mutex_lock cfg t (recursive_mutex_held t n) = Returns () (recursive_mutex_held t (Suc n))"
  by (simp add: recursive_mutex_lock_def recursive_mutex_held_def EnterCriticalSection_def
      TryEnterCriticalSection_def khmz_noexcept_def)

lemma recursive_mutex_unlock_held:
  "recursive_mutex_unlock cfg t (recursive_mutex_held t (Suc n)) = Returns () (recursive_mutex_held t n)"
  by (simp add: recursive_mutex_unlock_def recursive_mutex_held_def LeaveCriticalSection_def
      khmz_noexcept_def)

lemma recursive_mutex_lock_times_held:
  "recursive_mutex_lock_times k cfg t (recursive_mutex_held t n) =
     Returns () (recursive_mutex_held t (n + k))"
  by (induction k arbitrary: n) (simp_all add: recursive_mutex_lock_held)

lemma recursive_mutex_unlock_times_held:
  "recursive_mutex_unlock_times j cfg t (recursive_mutex_held t (n + j)) =
     Returns () (recursive_mutex_held t n)"
proof (induction j arbitrary: n)
  case 0
  show ?case by simp
next
  case (Suc j)
  have "recursive_mutex_unlock cfg t (recursive_mutex_held t (Suc (n + j))) =
          Returns () (recursive_mutex_held t (n + j))"
    by (rule recursive_mutex_unlock_held)
  then show ?case using Suc.IH [of n] by simp
qed

lemma recursive_mutex_try_lock_other:
  "u \<noteq> t \<Longrightarrow> 0 < n \<Longrightarrow>
   recursive_mutex_try_lock cfg u (recursive_mutex_held t n) = Returns False (recursive_mutex_held t n)"
  by (simp add: recursive_mutex_try_lock_def recursive_mutex_held_def TryEnterCriticalSection_def
      khmz_noexcept_def)

lemma recursive_mutex_lock_other:
  "u \<noteq> t \<Longrightarrow> 0 < n \<Longrightarrow>
   recursive_mutex_lock cfg u (recursive_mutex_held t n) = Blocks (recursive_mutex_held t n)"
  by (simp add: recursive_mutex_lock_def recursive_mutex_held_def EnterCriticalSection_def
      TryEnterCriticalSection_def khmz_noexcept_def)

lemma recursive_mutex_try_lock_free:
  "recursive_mutex_try_lock cfg u (recursive_mutex_held t 0) = Returns True (recursive_mutex_held u 1)"
  by (simp add: recursive_mutex_try_lock_def recursive_mutex_held_def TryEnterCriticalSection_def
      khmz_noexcept_def)

lemma mutex_try_lock_returns: "\<exists>b m'. mutex_try_lock cfg t m = Returns b m'"
  by (auto simp: mutex_try_lock_def khmz_noexcept_def WaitForSingleObject_def INFINITE_def
      split: option.splits kernel_mutex.splits)

lemma recursive_mutex_try_lock_returns: "\<exists>b m'. recursive_mutex_try_lock cfg t m = Returns b m'"
  by (simp add: recursive_mutex_try_lock_def khmz_noexcept_def split: prod.splits)

section \<open>The movable guard under the silent configuration\<close>

text \<open>
  Claim C1. Under \<^verbatim>\<open>KHMZ_DISABLE_THROW\<close>, \<^verbatim>\<open>unlock()\<close> on a guard that holds no lock
  is said to leave the guard and the underlying lock unchanged. The code does not: the
  ownership check is followed by an empty statement, so \<^verbatim>\<open>m_mutex->unlock()\<close> runs.
  Here the guard refers to the recursive lock at address 0 and does not own it, while the
  calling thread 1 holds that lock once by a direct call; \<^verbatim>\<open>unlock()\<close> on the guard
  returns without an error, the call \<open>Unlock 0\<close> is made, and the lock ends free.
\<close>

theorem unique_lock_unlock_silent_releases:
  "unique_lock_unlock silent_config (khmz_recursive_mutex silent_config 1)
       \<lparr>m_mutex = Some 0, m_owns_lock = False\<rparr> (fresh_world (recursive_mutex_held 1 1))
     = Returns () (\<lparr>m_mutex = Some 0, m_owns_lock = False\<rparr>,
                   after_call (Unlock 0) 0 (fresh_world (recursive_mutex_held 1 1))
                     (recursive_mutex_held 1 0))
   \<and> objs (after_call (Unlock 0) 0 (fresh_world (recursive_mutex_held 1 1))
             (recursive_mutex_held 1 0)) 0
       \<noteq> objs (fresh_world (recursive_mutex_held 1 1)) 0"
  by (simp add: unique_lock_unlock_def khmz_recursive_mutex_def recursive_mutex_unlock_def
      LeaveCriticalSection_def khmz_throw_def khmz_noexcept_def member_call_def after_call_def
      fresh_world_def recursive_mutex_held_def silent_config_def)

section \<open>The movable guard under the default configuration\<close>

text \<open>
  Claim C2. In the default configuration \<^verbatim>\<open>lock()\<close> ends with the error
  ``Lock already owned'' and the guard and the store untouched (no call on the lock is
  made) exactly when the guard owns its lock; for a lock type that does not itself throw
  that error, \<^verbatim>\<open>lock()\<close> throws it exactly when the guard owns its lock. When the guard
  is unowned and the acquire of the lock it refers to throws, the same exception leaves
  \<^verbatim>\<open>lock()\<close> and the guard is as before, unowned.
\<close>

theorem unique_lock_lock_usage_error:
  assumes "\<not> KHMZ_DISABLE_THROW cfg"
  shows "((unique_lock_lock cfg T g w =
             Throws (runtime_error ''Lock already owned at khmz::unique_lock::lock'') (g, w))
           = m_owns_lock g)
       \<and> ((\<forall>m m'. T_lock T m \<noteq>
                    Throws (runtime_error ''Lock already owned at khmz::unique_lock::lock'') m') \<longrightarrow>
            ((\<exists>s. unique_lock_lock cfg T g w =
                    Throws (runtime_error ''Lock already owned at khmz::unique_lock::lock'') s)
             = m_owns_lock g))
       \<and> (\<not> m_owns_lock g \<and> m_mutex g = Some p \<and> T_lock T (objs w p) = Throws e m' \<longrightarrow>
            unique_lock_lock cfg T g w = Throws e (g, after_call (Lock p) p w m'))"
  using assms
  by (auto simp: unique_lock_lock_def khmz_throw_def Let_def member_call_def after_call_differs
      split: option.splits outcome.splits)

theorem unique_lock_lock_usage_error_witness:
  "\<not> KHMZ_DISABLE_THROW default_config
   \<and> (\<forall>m m'. T_lock (khmz_mutex default_config 1) m \<noteq>
               Throws (runtime_error ''Lock already owned at khmz::unique_lock::lock'') m')
   \<and> \<not> m_owns_lock \<lparr>m_mutex = Some 0, m_owns_lock = False\<rparr>
   \<and> m_mutex \<lparr>m_mutex = Some 0, m_owns_lock = False\<rparr> = Some 0
   \<and> T_lock (khmz_mutex default_config 1) (objs (fresh_world \<lparr>m_hMutex = Some Abandoned\<rparr>) 0)
       = Throws (runtime_error ''Failed to lock mutex at khmz::mutex::lock'') \<lparr>m_hMutex = Some (Owned 1)\<rparr>
   \<and> unique_lock_lock default_config (khmz_mutex default_config 1)
         \<lparr>m_mutex = Some 0, m_owns_lock = False\<rparr> (fresh_world \<lparr>m_hMutex = Some Abandoned\<rparr>)
       = Throws (runtime_error ''Failed to lock mutex at khmz::mutex::lock'')
           (\<lparr>m_mutex = Some 0, m_owns_lock = False\<rparr>,
            after_call (Lock 0) 0 (fresh_world \<lparr>m_hMutex = Some Abandoned\<rparr>)
              \<lparr>m_hMutex = Some (Owned 1)\<rparr>)
   \<and> unique_lock_lock default_config (khmz_mutex default_config 1)
         \<lparr>m_mutex = Some 0, m_owns_lock = True\<rparr> (fresh_world \<lparr>m_hMutex = Some (Owned 1)\<rparr>)
       = Throws (runtime_error ''Lock already owned at khmz::unique_lock::lock'')
           (\<lparr>m_mutex = Some 0, m_owns_lock = True\<rparr>, fresh_world \<lparr>m_hMutex = Some (Owned 1)\<rparr>)"
proof -
  have cfg: "\<not> KHMZ_DISABLE_THROW default_config"
    by (simp add: default_config_def)
  have msg: "\<forall>m m'. T_lock (khmz_mutex default_config 1) m \<noteq>
               Throws (runtime_error ''Lock already owned at khmz::unique_lock::lock'') m'"
    by (simp add: khmz_mutex_def mutex_lock_message)
  have acq: "T_lock (khmz_mutex default_config 1) (objs (fresh_world \<lparr>m_hMutex = Some Abandoned\<rparr>) 0)
       = Throws (runtime_error ''Failed to lock mutex at khmz::mutex::lock'') \<lparr>m_hMutex = Some (Owned 1)\<rparr>"
    by (simp add: khmz_mutex_def mutex_lock_def WaitForSingleObject_def khmz_throw_def
        fresh_world_def default_config_def)
  show ?thesis
    using cfg msg acq
      unique_lock_lock_usage_error [OF cfg, of "khmz_mutex default_config 1"
        "\<lparr>m_mutex = Some 0, m_owns_lock = False\<rparr>" "fresh_world \<lparr>m_hMutex = Some Abandoned\<rparr>"
        0 "runtime_error ''Failed to lock mutex at khmz::mutex::lock''" "\<lparr>m_hMutex = Some (Owned 1)\<rparr>"]
      unique_lock_lock_usage_error [OF cfg, of "khmz_mutex default_config 1"
        "\<lparr>m_mutex = Some 0, m_owns_lock = True\<rparr>" "fresh_world \<lparr>m_hMutex = Some (Owned 1)\<rparr>"]
    by simp
qed

text \<open>
  Claim C3, as amended. In the default configuration \<^verbatim>\<open>unlock()\<close> ends with the error
  ``No lock to release'' and the guard and the store untouched exactly when the guard
  does not own its lock; for a lock type that does not itself throw that error,
  \<^verbatim>\<open>unlock()\<close> throws it exactly when the guard does not own its lock. When the guard
  owns the lock it refers to, the release of that lock is called once: if it returns, the
  guard becomes unowned; if it throws, the exception leaves \<^verbatim>\<open>unlock()\<close> and the
  guard stays owned.
\<close>

theorem unique_lock_unlock_usage_error:
  assumes "\<not> KHMZ_DISABLE_THROW cfg"
  shows "((unique_lock_unlock cfg T g w =
             Throws (runtime_error ''No lock to release at khmz::unique_lock::unlock'') (g, w))
           = (\<not> m_owns_lock g))
       \<and> ((\<forall>m m'. T_unlock T m \<noteq>
                    Throws (runtime_error ''No lock to release at khmz::unique_lock::unlock'') m') \<longrightarrow>
            ((\<exists>s. unique_lock_unlock cfg T g w =
                    Throws (runtime_error ''No lock to release at khmz::unique_lock::unlock'') s)
             = (\<not> m_owns_lock g)))
       \<and> (m_owns_lock g \<and> m_mutex g = Some p \<and> T_unlock T (objs w p) = Returns u m' \<longrightarrow>
            unique_lock_unlock cfg T g w =
              Returns () (g\<lparr>m_owns_lock := False\<rparr>, after_call (Unlock p) p w m'))
       \<and> (m_owns_lock g \<and> m_mutex g = Some p \<and> T_unlock T (objs w p) = Throws e m' \<longrightarrow>
            unique_lock_unlock cfg T g w = Throws e (g, after_call (Unlock p) p w m'))"
  using assms
  by (auto simp: unique_lock_unlock_def khmz_throw_def Let_def member_call_def after_call_differs
      split: option.splits outcome.splits)

theorem unique_lock_unlock_usage_error_witness:
  "\<not> KHMZ_DISABLE_THROW default_config
   \<and> (\<forall>m m'. T_unlock (khmz_mutex default_config 1) m \<noteq>
               Throws (runtime_error ''No lock to release at khmz::unique_lock::unlock'') m')
   \<and> m_owns_lock \<lparr>m_mutex = Some 0, m_owns_lock = True\<rparr>
   \<and> m_mutex \<lparr>m_mutex = Some 0, m_owns_lock = True\<rparr> = Some 0
   \<and> T_unlock (khmz_mutex default_config 1) (objs (fresh_world \<lparr>m_hMutex = Some (Owned 1)\<rparr>) 0)
       = Returns () \<lparr>m_hMutex = Some Unowned\<rparr>
   \<and> unique_lock_unlock default_config (khmz_mutex default_config 1)
         \<lparr>m_mutex = Some 0, m_owns_lock = True\<rparr> (fresh_world \<lparr>m_hMutex = Some (Owned 1)\<rparr>)
       = Returns () (\<lparr>m_mutex = Some 0, m_owns_lock = False\<rparr>,
                     after_call (Unlock 0) 0 (fresh_world \<lparr>m_hMutex = Some (Owned 1)\<rparr>)
                       \<lparr>m_hMutex = Some Unowned\<rparr>)
   \<and> unique_lock_unlock default_config (khmz_mutex default_config 1)
         \<lparr>m_mutex = Some 0, m_owns_lock = False\<rparr> (fresh_world \<lparr>m_hMutex = Some Unowned\<rparr>)
       = Throws (runtime_error ''No lock to release at khmz::unique_lock::unlock'')
           (\<lparr>m_mutex = Some 0, m_owns_lock = False\<rparr>, fresh_world \<lparr>m_hMutex = Some Unowned\<rparr>)"
proof -
  have cfg: "\<not> KHMZ_DISABLE_THROW default_config"
    by (simp add: default_config_def)
  have msg: "\<forall>m m'. T_unlock (khmz_mutex default_config 1) m \<noteq>
               Throws (runtime_error ''No lock to release at khmz::unique_lock::unlock'') m'"
    by (simp add: khmz_mutex_def mutex_unlock_message)
  have rel: "T_unlock (khmz_mutex default_config 1) (objs (fresh_world \<lparr>m_hMutex = Some (Owned 1)\<rparr>) 0)
       = Returns () \<lparr>m_hMutex = Some Unowned\<rparr>"
    by (simp add: khmz_mutex_def mutex_unlock_def ReleaseMutex_def fresh_world_def)
  show ?thesis
    using cfg msg rel
      unique_lock_unlock_usage_error [OF cfg, of "khmz_mutex default_config 1"
        "\<lparr>m_mutex = Some 0, m_owns_lock = True\<rparr>" "fresh_world \<lparr>m_hMutex = Some (Owned 1)\<rparr>"
        0 "()" "\<lparr>m_hMutex = Some Unowned\<rparr>"]
      unique_lock_unlock_usage_error [OF cfg, of "khmz_mutex default_config 1"
        "\<lparr>m_mutex = Some 0, m_owns_lock = False\<rparr>" "fresh_world \<lparr>m_hMutex = Some Unowned\<rparr>"]
    by simp
qed

text \<open>
  Where the release itself throws, the guard does not become unowned: the guard owns the
  lock at address 0, the thread has released the kernel object by a direct call, and
  \<^verbatim>\<open>unlock()\<close> ends with the error of \<^verbatim>\<open>khmz::mutex::unlock\<close>, the guard still
  owned.
\<close>

theorem unique_lock_unlock_release_fails:
  "m_owns_lock \<lparr>m_mutex = Some 0, m_owns_lock = True\<rparr>
   \<and> unique_lock_unlock default_config (khmz_mutex default_config 1)
         \<lparr>m_mutex = Some 0, m_owns_lock = True\<rparr> (fresh_world \<lparr>m_hMutex = Some Unowned\<rparr>)
       = Throws (runtime_error ''Failed to release mutex at khmz::mutex::unlock'')
           (\<lparr>m_mutex = Some 0, m_owns_lock = True\<rparr>,
            after_call (Unlock 0) 0 (fresh_world \<lparr>m_hMutex = Some Unowned\<rparr>)
              \<lparr>m_hMutex = Some Unowned\<rparr>)"
  by (simp add: unique_lock_unlock_def khmz_mutex_def mutex_unlock_def ReleaseMutex_def
      khmz_throw_def member_call_def fresh_world_def default_config_def)

text \<open>
  Claim C4. In the default configuration \<^verbatim>\<open>try_lock()\<close> on a guard that owns its lock
  ends with the error ``Lock already owned'', the guard and the store untouched.
  Otherwise the non-blocking acquire of the lock the guard refers to is called once; when
  it returns \<open>b\<close>, the ownership flag of the guard is \<open>b\<close> and \<^verbatim>\<open>try_lock()\<close> returns
  \<open>b\<close>, the value of the flag. For both lock types of the header the acquire always
  returns a boolean.
\<close>

theorem unique_lock_try_lock_result:
  assumes "\<not> KHMZ_DISABLE_THROW cfg"
  shows "(m_owns_lock g \<longrightarrow>
            unique_lock_try_lock cfg T g w =
              Throws (runtime_error ''Lock already owned at khmz::unique_lock::try_lock'') (g, w))
       \<and> (\<not> m_owns_lock g \<and> m_mutex g = Some p \<and> T_try_lock T (objs w p) = Returns b m' \<longrightarrow>
            unique_lock_try_lock cfg T g w =
              Returns b (g\<lparr>m_owns_lock := b\<rparr>, after_call (TryLock p) p w m')
            \<and> m_owns_lock (g\<lparr>m_owns_lock := b\<rparr>) = b)
       \<and> (\<exists>b m'. T_try_lock (khmz_mutex cfg t) m = Returns b m')
       \<and> (\<exists>b r'. T_try_lock (khmz_recursive_mutex cfg t) r = Returns b r')"
proof (intro conjI impI)
  assume "m_owns_lock g"
  then show "unique_lock_try_lock cfg T g w =
              Throws (runtime_error ''Lock already owned at khmz::unique_lock::try_lock'') (g, w)"
    using assms by (simp add: unique_lock_try_lock_def khmz_throw_def)
next
  assume "\<not> m_owns_lock g \<and> m_mutex g = Some p \<and> T_try_lock T (objs w p) = Returns b m'"
  then show "unique_lock_try_lock cfg T g w =
              Returns b (g\<lparr>m_owns_lock := b\<rparr>, after_call (TryLock p) p w m')"
    by (simp add: unique_lock_try_lock_def member_call_def)
next
  show "m_owns_lock (g\<lparr>m_owns_lock := b\<rparr>) = b"
    by simp
next
  show "\<exists>b m'. T_try_lock (khmz_mutex cfg t) m = Returns b m'"
    using mutex_try_lock_returns [of cfg t m] by (simp add: khmz_mutex_def)
next
  show "\<exists>b r'. T_try_lock (khmz_recursive_mutex cfg t) r = Returns b r'"
    using recursive_mutex_try_lock_returns [of cfg t r] by (simp add: khmz_recursive_mutex_def)
qed

theorem unique_lock_try_lock_result_witness:
  "\<not> KHMZ_DISABLE_THROW default_config
   \<and> m_owns_lock \<lparr>m_mutex = Some 0, m_owns_lock = True\<rparr>
   \<and> unique_lock_try_lock default_config (khmz_mutex default_config 1)
         \<lparr>m_mutex = Some 0, m_owns_lock = True\<rparr> (fresh_world \<lparr>m_hMutex = Some (Owned 1)\<rparr>)
       = Throws (runtime_error ''Lock already owned at khmz::unique_lock::try_lock'')
           (\<lparr>m_mutex = Some 0, m_owns_lock = True\<rparr>, fresh_world \<lparr>m_hMutex = Some (Owned 1)\<rparr>)
   \<and> \<not> m_owns_lock \<lparr>m_mutex = Some 0, m_owns_lock = False\<rparr>
   \<and> m_mutex \<lparr>m_mutex = Some 0, m_owns_lock = False\<rparr> = Some 0
   \<and> T_try_lock (khmz_mutex default_config 1) (objs (fresh_world \<lparr>m_hMutex = Some Unowned\<rparr>) 0)
       = Returns True \<lparr>m_hMutex = Some (Owned 1)\<rparr>
   \<and> unique_lock_try_lock default_config (khmz_mutex default_config 1)
         \<lparr>m_mutex = Some 0, m_owns_lock = False\<rparr> (fresh_world \<lparr>m_hMutex = Some Unowned\<rparr>)
       = Returns True (\<lparr>m_mutex = Some 0, m_owns_lock = True\<rparr>,
                       after_call (TryLock 0) 0 (fresh_world \<lparr>m_hMutex = Some Unowned\<rparr>)
                         \<lparr>m_hMutex = Some (Owned 1)\<rparr>)
   \<and> T_try_lock (khmz_mutex default_config 1) (objs (fresh_world \<lparr>m_hMutex = Some (Owned 2)\<rparr>) 0)
       = Returns False \<lparr>m_hMutex = Some (Owned 2)\<rparr>
   \<and> unique_lock_try_lock default_config (khmz_mutex default_config 1)
         \<lparr>m_mutex = Some 0, m_owns_lock = False\<rparr> (fresh_world \<lparr>m_hMutex = Some (Owned 2)\<rparr>)
       = Returns False (\<lparr>m_mutex = Some 0, m_owns_lock = False\<rparr>,
                        after_call (TryLock 0) 0 (fresh_world \<lparr>m_hMutex = Some (Owned 2)\<rparr>)
                          \<lparr>m_hMutex = Some (Owned 2)\<rparr>)"
proof -
  have cfg: "\<not> KHMZ_DISABLE_THROW default_config"
    by (simp add: default_config_def)
  have free: "T_try_lock (khmz_mutex default_config 1) (objs (fresh_world \<lparr>m_hMutex = Some Unowned\<rparr>) 0)
       = Returns True \<lparr>m_hMutex = Some (Owned 1)\<rparr>"
    by (simp add: khmz_mutex_def mutex_try_lock_def WaitForSingleObject_def khmz_noexcept_def
        fresh_world_def)
  have held: "T_try_lock (khmz_mutex default_config 1) (objs (fresh_world \<lparr>m_hMutex = Some (Owned 2)\<rparr>) 0)
       = Returns False \<lparr>m_hMutex = Some (Owned 2)\<rparr>"
    by (simp add: khmz_mutex_def mutex_try_lock_def WaitForSingleObject_def khmz_noexcept_def
        fresh_world_def INFINITE_def)
  show ?thesis
    using cfg free held
      unique_lock_try_lock_result [OF cfg, where g = "\<lparr>m_mutex = Some 0, m_owns_lock = True\<rparr>"
        and T = "khmz_mutex default_config 1" and w = "fresh_world \<lparr>m_hMutex = Some (Owned 1)\<rparr>"]
      unique_lock_try_lock_result [OF cfg, where g = "\<lparr>m_mutex = Some 0, m_owns_lock = False\<rparr>"
        and p = 0 and T = "khmz_mutex default_config 1"
        and w = "fresh_world \<lparr>m_hMutex = Some Unowned\<rparr>" and b = True
        and m' = "\<lparr>m_hMutex = Some (Owned 1)\<rparr>"]
      unique_lock_try_lock_result [OF cfg, where g = "\<lparr>m_mutex = Some 0, m_owns_lock = False\<rparr>"
        and p = 0 and T = "khmz_mutex default_config 1"
        and w = "fresh_world \<lparr>m_hMutex = Some (Owned 2)\<rparr>" and b = False
        and m' = "\<lparr>m_hMutex = Some (Owned 2)\<rparr>"]
    by simp
qed

section \<open>Transfer of ownership between movable guards\<close>

text \<open>
  Claim C5, as amended. The move constructor gives the new guard the lock pointer and the
  ownership flag of the source and leaves the source with a null pointer and unowned.
  Move assignment between two distinct guards does the same for the destination, after
  one release of the lock the destination owned, if it owned one and that release
  returns; the assignment of a guard to itself is skipped and changes nothing. Hence,
  after an owning guard on the lock \<open>L\<close> has been moved into another guard, by
  construction or by assignment, destroying the destination makes exactly the call
  \<open>Unlock L\<close> and destroying the source returns with the store untouched.
\<close>

theorem unique_lock_move_transfer:
  "unique_lock_move_ctor src = (src, \<lparr>m_mutex = None, m_owns_lock = False\<rparr>)
   \<and> (this \<noteq> other \<and> \<not> m_owns_lock (gs this) \<longrightarrow>
        unique_lock_move_assign cfg T this other gs w =
          Returns () ((gs(this := gs other))(other := \<lparr>m_mutex = None, m_owns_lock = False\<rparr>), w))
   \<and> (this \<noteq> other \<and> m_owns_lock (gs this) \<and> m_mutex (gs this) = Some q
         \<and> T_unlock T (objs w q) = Returns u m' \<longrightarrow>
        unique_lock_move_assign cfg T this other gs w =
          Returns () ((gs(this := gs other))(other := \<lparr>m_mutex = None, m_owns_lock = False\<rparr>),
                      after_call (Unlock q) q w m'))
   \<and> (this \<noteq> other \<longrightarrow>
        ((gs(this := gs other))(other := \<lparr>m_mutex = None, m_owns_lock = False\<rparr>)) this = gs other
        \<and> ((gs(this := gs other))(other := \<lparr>m_mutex = None, m_owns_lock = False\<rparr>)) other
            = \<lparr>m_mutex = None, m_owns_lock = False\<rparr>)
   \<and> (m_owns_lock src \<and> m_mutex src = Some L \<longrightarrow>
        outcome_state (unique_lock_dtor cfg T (fst (unique_lock_move_ctor src)) w)
          = map_option (after_call (Unlock L) L w) (outcome_state (T_unlock T (objs w L)))
        \<and> unique_lock_dtor cfg T (snd (unique_lock_move_ctor src)) w = Returns () w)
   \<and> (this \<noteq> other \<and> m_owns_lock (gs other) \<and> m_mutex (gs other) = Some L \<longrightarrow>
        outcome_state
          (unique_lock_dtor cfg T
             (((gs(this := gs other))(other := \<lparr>m_mutex = None, m_owns_lock = False\<rparr>)) this) w)
          = map_option (after_call (Unlock L) L w) (outcome_state (T_unlock T (objs w L)))
        \<and> unique_lock_dtor cfg T
             (((gs(this := gs other))(other := \<lparr>m_mutex = None, m_owns_lock = False\<rparr>)) other) w
            = Returns () w)
   \<and> unique_lock_move_assign cfg T this this gs w = Returns () (gs, w)"
proof (intro conjI impI)
  show "unique_lock_move_assign cfg T this this gs w = Returns () (gs, w)"
    by (simp add: unique_lock_move_assign_def khmz_noexcept_def)
next
  show "unique_lock_move_ctor src = (src, \<lparr>m_mutex = None, m_owns_lock = False\<rparr>)"
    by (simp add: unique_lock_move_ctor_def)
next
  assume "this \<noteq> other \<and> \<not> m_owns_lock (gs this)"
  then show "unique_lock_move_assign cfg T this other gs w =
          Returns () ((gs(this := gs other))(other := \<lparr>m_mutex = None, m_owns_lock = False\<rparr>), w)"
    by (simp add: unique_lock_move_assign_def khmz_noexcept_def)
next
  assume "this \<noteq> other \<and> m_owns_lock (gs this) \<and> m_mutex (gs this) = Some q
         \<and> T_unlock T (objs w q) = Returns u m'"
  then show "unique_lock_move_assign cfg T this other gs w =
          Returns () ((gs(this := gs other))(other := \<lparr>m_mutex = None, m_owns_lock = False\<rparr>),
                      after_call (Unlock q) q w m')"
    by (simp add: unique_lock_move_assign_def khmz_noexcept_def member_call_def)
next
  assume "this \<noteq> other"
  then show "((gs(this := gs other))(other := \<lparr>m_mutex = None, m_owns_lock = False\<rparr>)) this = gs other"
    by simp
next
  show "((gs(this := gs other))(other := \<lparr>m_mutex = None, m_owns_lock = False\<rparr>)) other
            = \<lparr>m_mutex = None, m_owns_lock = False\<rparr>"
    by simp
next
  assume "m_owns_lock src \<and> m_mutex src = Some L"
  then show "outcome_state (unique_lock_dtor cfg T (fst (unique_lock_move_ctor src)) w)
          = map_option (after_call (Unlock L) L w) (outcome_state (T_unlock T (objs w L)))"
    by (simp add: unique_lock_move_ctor_def unique_lock_dtor_def outcome_state_noexcept
        outcome_state_member_call)
next
  show "unique_lock_dtor cfg T (snd (unique_lock_move_ctor src)) w = Returns () w"
    by (simp add: unique_lock_move_ctor_def unique_lock_dtor_def khmz_noexcept_def)
next
  assume "this \<noteq> other \<and> m_owns_lock (gs other) \<and> m_mutex (gs other) = Some L"
  then show "outcome_state
          (unique_lock_dtor cfg T
             (((gs(this := gs other))(other := \<lparr>m_mutex = None, m_owns_lock = False\<rparr>)) this) w)
          = map_option (after_call (Unlock L) L w) (outcome_state (T_unlock T (objs w L)))"
    by (simp add: unique_lock_dtor_def outcome_state_noexcept outcome_state_member_call)
next
  show "unique_lock_dtor cfg T
             (((gs(this := gs other))(other := \<lparr>m_mutex = None, m_owns_lock = False\<rparr>)) other) w
            = Returns () w"
    by (simp add: unique_lock_dtor_def khmz_noexcept_def)
qed

text \<open>
  The guard at address 1 owns the recursive lock at address 0, which thread 1 holds once;
  the guard at address 2 is default-constructed. After the assignment of guard 1 to guard
  2, guard 2 owns the lock and guard 1 is empty; destroying the owning guard makes the one
  call \<open>Unlock 0\<close> and frees the lock; destroying the empty guard changes nothing.
  When the destination owns the lock at address 5, that lock is released first.
\<close>

theorem unique_lock_move_transfer_witness:
  "(2::addr) \<noteq> 1
   \<and> \<not> m_owns_lock (((\<lambda>a. \<lparr>m_mutex = None, m_owns_lock = False\<rparr>)
                          (1 := \<lparr>m_mutex = Some 0, m_owns_lock = True\<rparr>)) (2::addr))
   \<and> unique_lock_move_assign default_config (khmz_recursive_mutex default_config 1) 2 1
         ((\<lambda>a. \<lparr>m_mutex = None, m_owns_lock = False\<rparr>)
            (1 := \<lparr>m_mutex = Some 0, m_owns_lock = True\<rparr>))
         (fresh_world (recursive_mutex_held 1 1))
       = Returns ()
           ((\<lambda>a. \<lparr>m_mutex = None, m_owns_lock = False\<rparr>)
              (2 := \<lparr>m_mutex = Some 0, m_owns_lock = True\<rparr>,
               1 := \<lparr>m_mutex = None, m_owns_lock = False\<rparr>),
            fresh_world (recursive_mutex_held 1 1))
   \<and> m_owns_lock (((\<lambda>a. \<lparr>m_mutex = Some 0, m_owns_lock = True\<rparr>)
                        (2 := \<lparr>m_mutex = Some 5, m_owns_lock = True\<rparr>)) (2::addr))
   \<and> m_mutex (((\<lambda>a. \<lparr>m_mutex = Some 0, m_owns_lock = True\<rparr>)
                    (2 := \<lparr>m_mutex = Some 5, m_owns_lock = True\<rparr>)) (2::addr)) = Some 5
   \<and> T_unlock (khmz_recursive_mutex default_config 1)
         (objs (fresh_world (recursive_mutex_held 1 1)) 5)
       = Returns () (recursive_mutex_held 1 0)
   \<and> unique_lock_move_assign default_config (khmz_recursive_mutex default_config 1) 2 1
         ((\<lambda>a. \<lparr>m_mutex = Some 0, m_owns_lock = True\<rparr>)
            (2 := \<lparr>m_mutex = Some 5, m_owns_lock = True\<rparr>))
         (fresh_world (recursive_mutex_held 1 1))
       = Returns ()
           ((\<lambda>a. \<lparr>m_mutex = Some 0, m_owns_lock = True\<rparr>)
              (2 := \<lparr>m_mutex = Some 0, m_owns_lock = True\<rparr>,
               1 := \<lparr>m_mutex = None, m_owns_lock = False\<rparr>),
            after_call (Unlock 5) 5 (fresh_world (recursive_mutex_held 1 1))
              (recursive_mutex_held 1 0))
   \<and> m_owns_lock \<lparr>m_mutex = Some 0, m_owns_lock = True\<rparr>
   \<and> m_mutex \<lparr>m_mutex = Some 0, m_owns_lock = True\<rparr> = Some 0
   \<and> outcome_state (unique_lock_dtor default_config (khmz_recursive_mutex default_config 1)
         (fst (unique_lock_move_ctor \<lparr>m_mutex = Some 0, m_owns_lock = True\<rparr>))
         (fresh_world (recursive_mutex_held 1 1)))
       = Some (after_call (Unlock 0) 0 (fresh_world (recursive_mutex_held 1 1))
                 (recursive_mutex_held 1 0))
   \<and> unique_lock_dtor default_config (khmz_recursive_mutex default_config 1)
         (snd (unique_lock_move_ctor \<lparr>m_mutex = Some 0, m_owns_lock = True\<rparr>))
         (fresh_world (recursive_mutex_held 1 1))
       = Returns () (fresh_world (recursive_mutex_held 1 1))
   \<and> m_owns_lock (((\<lambda>a. \<lparr>m_mutex = None, m_owns_lock = False\<rparr>)
                        (1 := \<lparr>m_mutex = Some 0, m_owns_lock = True\<rparr>)) (1::addr))
   \<and> m_mutex (((\<lambda>a. \<lparr>m_mutex = None, m_owns_lock = False\<rparr>)
                    (1 := \<lparr>m_mutex = Some 0, m_owns_lock = True\<rparr>)) (1::addr)) = Some 0
   \<and> outcome_state (unique_lock_dtor default_config (khmz_recursive_mutex default_config 1)
         (((\<lambda>a. \<lparr>m_mutex = None, m_owns_lock = False\<rparr>)
             (2 := \<lparr>m_mutex = Some 0, m_owns_lock = True\<rparr>,
              1 := \<lparr>m_mutex = None, m_owns_lock = False\<rparr>)) (2::addr))
         (fresh_world (recursive_mutex_held 1 1)))
       = Some (after_call (Unlock 0) 0 (fresh_world (recursive_mutex_held 1 1))
                 (recursive_mutex_held 1 0))
   \<and> unique_lock_dtor default_config (khmz_recursive_mutex default_config 1)
         (((\<lambda>a. \<lparr>m_mutex = None, m_owns_lock = False\<rparr>)
             (2 := \<lparr>m_mutex = Some 0, m_owns_lock = True\<rparr>,
              1 := \<lparr>m_mutex = None, m_owns_lock = False\<rparr>)) (1::addr))
         (fresh_world (recursive_mutex_held 1 1))
       = Returns () (fresh_world (recursive_mutex_held 1 1))"
proof -
  have rel: "T_unlock (khmz_recursive_mutex default_config 1)
               (objs (fresh_world (recursive_mutex_held 1 1)) p)
             = Returns () (recursive_mutex_held 1 0)" for p
    using recursive_mutex_unlock_held [of default_config 1 0]
    by (simp add: khmz_recursive_mutex_def fresh_world_def)
  show ?thesis
    using rel [of 5] rel [of 0]
      unique_lock_move_transfer [where this = 2 and other = 1
        and gs = "(\<lambda>a. \<lparr>m_mutex = None, m_owns_lock = False\<rparr>)
                    (1 := \<lparr>m_mutex = Some 0, m_owns_lock = True\<rparr>)"
        and cfg = default_config and T = "khmz_recursive_mutex default_config 1"
        and w = "fresh_world (recursive_mutex_held 1 1)"
        and src = "\<lparr>m_mutex = Some 0, m_owns_lock = True\<rparr>" and L = 0]
      unique_lock_move_transfer [where this = 2 and other = 1
        and gs = "(\<lambda>a. \<lparr>m_mutex = Some 0, m_owns_lock = True\<rparr>)
                    (2 := \<lparr>m_mutex = Some 5, m_owns_lock = True\<rparr>)"
        and cfg = default_config and T = "khmz_recursive_mutex default_config 1"
        and w = "fresh_world (recursive_mutex_held 1 1)" and q = 5 and u = "()"
        and m' = "recursive_mutex_held 1 0"]
    by simp
qed

text \<open>
  The guard at address 1 owns the lock at address 0 and is move-assigned to itself: it
  is the source of the assignment and it still owns the lock afterwards.
\<close>

theorem unique_lock_move_assign_self:
  "unique_lock_move_assign default_config (khmz_recursive_mutex default_config 1) 1 1
       (guards_all \<lparr>m_mutex = Some 0, m_owns_lock = True\<rparr>)
       (fresh_world (recursive_mutex_held 1 1))
     = Returns () (guards_all \<lparr>m_mutex = Some 0, m_owns_lock = True\<rparr>,
                   fresh_world (recursive_mutex_held 1 1))
   \<and> m_owns_lock (guards_all \<lparr>m_mutex = Some 0, m_owns_lock = True\<rparr> 1)
   \<and> m_mutex (guards_all \<lparr>m_mutex = Some 0, m_owns_lock = True\<rparr> 1) = Some 0"
  by (simp add: unique_lock_move_assign_def khmz_noexcept_def guards_all_def)

section \<open>The scoped guard\<close>

text \<open>
  Claim C6. The constructor of \<^verbatim>\<open>lock_guard\<close> makes exactly one call, the blocking
  acquire of the lock it refers to, and the destructor makes exactly one call, the release
  of that lock, whatever the guard or the lock state: the store they leave is the store
  before with that one call recorded and the lock as the call left it. For a guard whose
  construction returned and a body that leaves the block by returning or by throwing, the
  block ends with the one release of the lock made after the body.
\<close>

theorem lock_guard_acquire_release_once:
  "outcome_state (lock_guard_ctor cfg T m w)
     = map_option (after_call (Lock m) m w) (outcome_state (T_lock T (objs w m)))
   \<and> outcome_state (lock_guard_dtor cfg T g w)
     = map_option (after_call (Unlock (lg_m_mutex g)) (lg_m_mutex g) w)
         (outcome_state (T_unlock T (objs w (lg_m_mutex g))))
   \<and> calls (after_call c p w m') = calls w @ [c]
   \<and> (lock_guard_ctor cfg T m w = Returns g w1
        \<and> (body w1 = Returns a w2 \<or> body w1 = Throws e w2) \<longrightarrow>
        lg_m_mutex g = m
        \<and> calls w1 = calls w @ [Lock m]
        \<and> outcome_state (lock_guard_scope cfg T m body w)
            = map_option (after_call (Unlock m) m w2) (outcome_state (T_unlock T (objs w2 m))))"
proof (intro conjI impI)
  show "outcome_state (lock_guard_ctor cfg T m w)
     = map_option (after_call (Lock m) m w) (outcome_state (T_lock T (objs w m)))"
    by (cases "T_lock T (objs w m)")
      (simp_all add: lock_guard_ctor_def outcome_state_noexcept member_call_def)
next
  show "outcome_state (lock_guard_dtor cfg T g w)
     = map_option (after_call (Unlock (lg_m_mutex g)) (lg_m_mutex g) w)
         (outcome_state (T_unlock T (objs w (lg_m_mutex g))))"
    by (simp add: lock_guard_dtor_def outcome_state_noexcept outcome_state_member_call)
next
  show "calls (after_call c p w m') = calls w @ [c]"
    by (simp add: after_call_def)
next
  assume h: "lock_guard_ctor cfg T m w = Returns g w1
        \<and> (body w1 = Returns a w2 \<or> body w1 = Throws e w2)"
  from h have ctor: "lock_guard_ctor cfg T m w = Returns g w1" by simp
  from ctor show gm: "lg_m_mutex g = m"
    by (auto simp: lock_guard_ctor_def khmz_noexcept_def split: outcome.splits if_splits)
  from ctor show "calls w1 = calls w @ [Lock m]"
    by (auto simp: lock_guard_ctor_def khmz_noexcept_def member_call_def after_call_def
        split: outcome.splits if_splits)
  have dtor: "outcome_state (lock_guard_dtor cfg T g w2)
     = map_option (after_call (Unlock m) m w2) (outcome_state (T_unlock T (objs w2 m)))"
    using gm by (simp add: lock_guard_dtor_def outcome_state_noexcept outcome_state_member_call)
  from h have "body w1 = Returns a w2 \<or> body w1 = Throws e w2" by simp
  then show "outcome_state (lock_guard_scope cfg T m body w)
            = map_option (after_call (Unlock m) m w2) (outcome_state (T_unlock T (objs w2 m)))"
  proof
    assume "body w1 = Returns a w2"
    then have "outcome_state (lock_guard_scope cfg T m body w)
                 = outcome_state (lock_guard_dtor cfg T g w2)"
      using ctor by (cases "lock_guard_dtor cfg T g w2") (simp_all add: lock_guard_scope_def)
    then show ?thesis using dtor by simp
  next
    assume "body w1 = Throws e w2"
    then have "outcome_state (lock_guard_scope cfg T m body w)
                 = outcome_state (lock_guard_dtor cfg T g w2)"
      using ctor by (cases "lock_guard_dtor cfg T g w2") (simp_all add: lock_guard_scope_def)
    then show ?thesis using dtor by simp
  qed
qed

text \<open>
  Thread 1 guards the free recursive lock at address 0 around a body that throws: the
  block ends by throwing the body's exception, with the calls \<open>Lock 0\<close> and \<open>Unlock 0\<close>
  made in this order and the lock free again.
\<close>

theorem lock_guard_acquire_release_once_witness:
  "lock_guard_ctor default_config (khmz_recursive_mutex default_config 1) 0
       (fresh_world (recursive_mutex_held 1 0))
     = Returns \<lparr>lg_m_mutex = 0\<rparr>
         (after_call (Lock 0) 0 (fresh_world (recursive_mutex_held 1 0)) (recursive_mutex_held 1 1))
   \<and> (\<lambda>w. Throws (runtime_error ''body'') w)
         (after_call (Lock 0) 0 (fresh_world (recursive_mutex_held 1 0)) (recursive_mutex_held 1 1))
       = (Throws (runtime_error ''body'')
           (after_call (Lock 0) 0 (fresh_world (recursive_mutex_held 1 0)) (recursive_mutex_held 1 1))
          :: (unit, recursive_mutex world) outcome)
   \<and> outcome_state
         (lock_guard_scope default_config (khmz_recursive_mutex default_config 1) 0
            (\<lambda>w. (Throws (runtime_error ''body'') w :: (unit, recursive_mutex world) outcome))
            (fresh_world (recursive_mutex_held 1 0)))
       = Some (after_call (Unlock 0) 0
                 (after_call (Lock 0) 0 (fresh_world (recursive_mutex_held 1 0))
                    (recursive_mutex_held 1 1))
                 (recursive_mutex_held 1 0))
   \<and> calls (after_call (Unlock 0) 0
                 (after_call (Lock 0) 0 (fresh_world (recursive_mutex_held 1 0))
                    (recursive_mutex_held 1 1))
                 (recursive_mutex_held 1 0))
       = [Lock 0, Unlock 0]"
proof -
  have acq: "T_lock (khmz_recursive_mutex default_config 1)
               (objs (fresh_world (recursive_mutex_held 1 0)) 0)
             = Returns () (recursive_mutex_held 1 1)"
    using recursive_mutex_lock_held [of default_config 1 0]
    by (simp add: khmz_recursive_mutex_def fresh_world_def)
  have ctor: "lock_guard_ctor default_config (khmz_recursive_mutex default_config 1) 0
       (fresh_world (recursive_mutex_held 1 0))
     = Returns \<lparr>lg_m_mutex = 0\<rparr>
         (after_call (Lock 0) 0 (fresh_world (recursive_mutex_held 1 0)) (recursive_mutex_held 1 1))"
    using acq by (simp add: lock_guard_ctor_def member_call_def khmz_noexcept_def)
  have rel: "T_unlock (khmz_recursive_mutex default_config 1)
               (objs (after_call (Lock 0) 0 (fresh_world (recursive_mutex_held 1 0))
                  (recursive_mutex_held 1 1)) 0)
             = Returns () (recursive_mutex_held 1 0)"
    using recursive_mutex_unlock_held [of default_config 1 0]
    by (simp add: khmz_recursive_mutex_def after_call_def)
  show ?thesis
    using ctor rel
      lock_guard_acquire_release_once [where cfg = default_config
        and T = "khmz_recursive_mutex default_config 1" and m = 0
        and w = "fresh_world (recursive_mutex_held 1 0)" and g = "\<lparr>lg_m_mutex = 0\<rparr>"
        and ?w1.0 = "after_call (Lock 0) 0 (fresh_world (recursive_mutex_held 1 0))
                       (recursive_mutex_held 1 1)"
        and ?w2.0 = "after_call (Lock 0) 0 (fresh_world (recursive_mutex_held 1 0))
                       (recursive_mutex_held 1 1)"
        and body = "\<lambda>w. (Throws (runtime_error ''body'') w :: (unit, recursive_mutex world) outcome)"
        and e = "runtime_error ''body''"]
    by (simp add: after_call_def fresh_world_def)
qed

section \<open>The recursive lock\<close>

text \<open>
  Claim C7. With the critical section modelled by its owner and its recursion count, a
  thread \<open>t\<close> that has acquired the free recursive lock \<open>k\<close> times holds it \<open>k\<close>
  times. After \<open>j < k\<close> releases it still owns the lock: a try-acquire by another
  thread \<open>u\<close> returns false and a blocking acquire by \<open>u\<close> blocks. After the \<open>k\<close>-th
  release the lock is as constructed, and a try-acquire by \<open>u\<close> returns true.
\<close>

theorem recursive_mutex_nested_release:
  "recursive_mutex_lock_times k cfg t recursive_mutex_ctor = Returns () (recursive_mutex_held t k)
   \<and> (j < k \<and> u \<noteq> t \<longrightarrow>
        recursive_mutex_unlock_times j cfg t (recursive_mutex_held t k)
          = Returns () (recursive_mutex_held t (k - j))
        \<and> OwningThread (m_cs (recursive_mutex_held t (k - j))) = Some t
        \<and> recursive_mutex_try_lock cfg u (recursive_mutex_held t (k - j))
          = Returns False (recursive_mutex_held t (k - j))
        \<and> recursive_mutex_lock cfg u (recursive_mutex_held t (k - j))
          = Blocks (recursive_mutex_held t (k - j)))
   \<and> recursive_mutex_unlock_times k cfg t (recursive_mutex_held t k) = Returns () recursive_mutex_ctor
   \<and> OwningThread (m_cs recursive_mutex_ctor) = None
   \<and> recursive_mutex_try_lock cfg u recursive_mutex_ctor = Returns True (recursive_mutex_held u 1)"
proof (intro conjI impI)
  show "recursive_mutex_lock_times k cfg t recursive_mutex_ctor = Returns () (recursive_mutex_held t k)"
    using recursive_mutex_lock_times_held [of k cfg t 0]
    by (simp add: recursive_mutex_ctor_held [of t])
next
  assume h: "j < k \<and> u \<noteq> t"
  then have k: "k = (k - j) + j" and pos: "0 < k - j" and ut: "u \<noteq> t" by simp_all
  show "recursive_mutex_unlock_times j cfg t (recursive_mutex_held t k)
          = Returns () (recursive_mutex_held t (k - j))"
    using recursive_mutex_unlock_times_held [of j cfg t "k - j"] k by simp
  show "OwningThread (m_cs (recursive_mutex_held t (k - j))) = Some t"
    using pos by (simp add: recursive_mutex_held_def)
  show "recursive_mutex_try_lock cfg u (recursive_mutex_held t (k - j))
          = Returns False (recursive_mutex_held t (k - j))"
    using ut pos by (rule recursive_mutex_try_lock_other)
  show "recursive_mutex_lock cfg u (recursive_mutex_held t (k - j))
          = Blocks (recursive_mutex_held t (k - j))"
    using ut pos by (rule recursive_mutex_lock_other)
next
  show "recursive_mutex_unlock_times k cfg t (recursive_mutex_held t k) = Returns () recursive_mutex_ctor"
    using recursive_mutex_unlock_times_held [of k cfg t 0]
    by (simp add: recursive_mutex_ctor_held [of t])
next
  show "OwningThread (m_cs recursive_mutex_ctor) = None"
    by (simp add: recursive_mutex_ctor_def InitializeCriticalSection_def)
next
  show "recursive_mutex_try_lock cfg u recursive_mutex_ctor = Returns True (recursive_mutex_held u 1)"
    using recursive_mutex_try_lock_free [of cfg u u]
    by (simp add: recursive_mutex_ctor_held [of u])
qed

text \<open>Three nested acquires by thread 1: after two releases thread 2 is still kept out.\<close>

theorem recursive_mutex_nested_release_witness:
  "(2::nat) < 3 \<and> (2::tid) \<noteq> 1
   \<and> recursive_mutex_lock_times 3 default_config 1 recursive_mutex_ctor
       = Returns () (recursive_mutex_held 1 3)
   \<and> recursive_mutex_unlock_times 2 default_config 1 (recursive_mutex_held 1 3)
       = Returns () (recursive_mutex_held 1 1)
   \<and> recursive_mutex_try_lock default_config 2 (recursive_mutex_held 1 1)
       = Returns False (recursive_mutex_held 1 1)
   \<and> recursive_mutex_lock default_config 2 (recursive_mutex_held 1 1)
       = Blocks (recursive_mutex_held 1 1)
   \<and> recursive_mutex_unlock_times 3 default_config 1 (recursive_mutex_held 1 3)
       = Returns () recursive_mutex_ctor
   \<and> recursive_mutex_try_lock default_config 2 recursive_mutex_ctor
       = Returns True (recursive_mutex_held 2 1)"
  using recursive_mutex_nested_release [of 3 default_config 1 2 2]
  by simp

section \<open>The basic lock\<close>

text \<open>
  Claim C8, as amended. \<^verbatim>\<open>khmz::mutex::try_lock\<close> always returns a boolean and never
  throws, blocks or terminates; the boolean says whether the zero-time wait ended in
  clean ownership (\<open>WAIT_OBJECT_0\<close>), and the lock is left as the wait left it. On a
  kernel object owned by another thread it returns false and leaves the lock as it was;
  on an unowned object it returns true and the calling thread is the owner; on an
  abandoned object it returns false although the wait has made the calling thread the
  owner; on the null handle it returns false and changes nothing.
\<close>

theorem mutex_try_lock_result:
  "(\<exists>b m'. mutex_try_lock cfg t m = Returns b m')
   \<and> (WaitForSingleObject t (m_hMutex m) 0 = Some (r, h) \<longrightarrow>
        mutex_try_lock cfg t m = Returns (r = WAIT_OBJECT_0) (m\<lparr>m_hMutex := h\<rparr>))
   \<and> (m_hMutex m = Some (Owned u) \<and> u \<noteq> t \<longrightarrow> mutex_try_lock cfg t m = Returns False m)
   \<and> (m_hMutex m = Some Unowned \<longrightarrow>
        mutex_try_lock cfg t m = Returns True (m\<lparr>m_hMutex := Some (Owned t)\<rparr>))
   \<and> (m_hMutex m = Some Abandoned \<longrightarrow>
        mutex_try_lock cfg t m = Returns False (m\<lparr>m_hMutex := Some (Owned t)\<rparr>))
   \<and> (m_hMutex m = None \<longrightarrow> mutex_try_lock cfg t m = Returns False m)"
proof (intro conjI impI)
  show "\<exists>b m'. mutex_try_lock cfg t m = Returns b m'"
    by (rule mutex_try_lock_returns)
next
  assume "WaitForSingleObject t (m_hMutex m) 0 = Some (r, h)"
  then show "mutex_try_lock cfg t m = Returns (r = WAIT_OBJECT_0) (m\<lparr>m_hMutex := h\<rparr>)"
    by (simp add: mutex_try_lock_def khmz_noexcept_def)
next
  assume "m_hMutex m = Some (Owned u) \<and> u \<noteq> t"
  then show "mutex_try_lock cfg t m = Returns False m"
    by (simp add: mutex_try_lock_def khmz_noexcept_def WaitForSingleObject_def INFINITE_def)
next
  assume "m_hMutex m = Some Unowned"
  then show "mutex_try_lock cfg t m = Returns True (m\<lparr>m_hMutex := Some (Owned t)\<rparr>)"
    by (simp add: mutex_try_lock_def khmz_noexcept_def WaitForSingleObject_def)
next
  assume "m_hMutex m = Some Abandoned"
  then show "mutex_try_lock cfg t m = Returns False (m\<lparr>m_hMutex := Some (Owned t)\<rparr>)"
    by (simp add: mutex_try_lock_def khmz_noexcept_def WaitForSingleObject_def)
next
  assume "m_hMutex m = None"
  then show "mutex_try_lock cfg t m = Returns False m"
    by (simp add: mutex_try_lock_def khmz_noexcept_def WaitForSingleObject_def)
qed

theorem mutex_try_lock_result_witness:
  "m_hMutex \<lparr>m_hMutex = Some (Owned 2)\<rparr> = Some (Owned 2) \<and> (2::tid) \<noteq> 1
   \<and> mutex_try_lock default_config 1 \<lparr>m_hMutex = Some (Owned 2)\<rparr>
       = Returns False \<lparr>m_hMutex = Some (Owned 2)\<rparr>
   \<and> m_hMutex \<lparr>m_hMutex = Some Unowned\<rparr> = Some Unowned
   \<and> WaitForSingleObject 1 (m_hMutex \<lparr>m_hMutex = Some Unowned\<rparr>) 0
       = Some (WAIT_OBJECT_0, Some (Owned 1))
   \<and> mutex_try_lock default_config 1 \<lparr>m_hMutex = Some Unowned\<rparr>
       = Returns True \<lparr>m_hMutex = Some (Owned 1)\<rparr>
   \<and> m_hMutex \<lparr>m_hMutex = Some Abandoned\<rparr> = Some Abandoned
   \<and> WaitForSingleObject 1 (m_hMutex \<lparr>m_hMutex = Some Abandoned\<rparr>) 0
       = Some (WAIT_ABANDONED, Some (Owned 1))
   \<and> mutex_try_lock default_config 1 \<lparr>m_hMutex = Some Abandoned\<rparr>
       = Returns False \<lparr>m_hMutex = Some (Owned 1)\<rparr>
   \<and> m_hMutex \<lparr>m_hMutex = None\<rparr> = None
   \<and> mutex_try_lock default_config 1 \<lparr>m_hMutex = None\<rparr> = Returns False \<lparr>m_hMutex = None\<rparr>"
proof -
  have free: "WaitForSingleObject 1 (m_hMutex \<lparr>m_hMutex = Some Unowned\<rparr>) 0
       = Some (WAIT_OBJECT_0, Some (Owned 1))"
    by (simp add: WaitForSingleObject_def)
  have left: "WaitForSingleObject 1 (m_hMutex \<lparr>m_hMutex = Some Abandoned\<rparr>) 0
       = Some (WAIT_ABANDONED, Some (Owned 1))"
    by (simp add: WaitForSingleObject_def)
  show ?thesis
    using free left
      mutex_try_lock_result [where cfg = default_config and t = 1
        and m = "\<lparr>m_hMutex = Some (Owned 2)\<rparr>" and u = 2]
      mutex_try_lock_result [where cfg = default_config and t = 1
        and m = "\<lparr>m_hMutex = Some Unowned\<rparr>" and r = WAIT_OBJECT_0 and h = "Some (Owned 1)"]
      mutex_try_lock_result [where cfg = default_config and t = 1
        and m = "\<lparr>m_hMutex = Some Abandoned\<rparr>" and r = WAIT_ABANDONED and h = "Some (Owned 1)"]
      mutex_try_lock_result [where cfg = default_config and t = 1
        and m = "\<lparr>m_hMutex = None\<rparr>"]
    by simp
qed

text \<open>
  An abandoned kernel object is owned by no thread, and the zero-time wait of thread 1
  acquires it: \<^verbatim>\<open>try_lock\<close> returns false, and the calling thread is the owner.
\<close>

theorem mutex_try_lock_abandoned:
  "m_hMutex \<lparr>m_hMutex = Some Abandoned\<rparr> = Some Abandoned
   \<and> mutex_try_lock default_config 1 \<lparr>m_hMutex = Some Abandoned\<rparr>
       = Returns False \<lparr>m_hMutex = Some (Owned 1)\<rparr>"
  by (simp add: mutex_try_lock_def khmz_noexcept_def WaitForSingleObject_def default_config_def)

section \<open>Disassociation and the null pointer\<close>

text \<open>
  Claim C9. \<^verbatim>\<open>release()\<close> returns with the guard's pointer null and its ownership flag
  false, whatever they were, and with the store untouched: no call is made on any lock
  and no lock changes state.
\<close>

theorem unique_lock_release_frame:
  "unique_lock_release cfg g w = Returns () (\<lparr>m_mutex = None, m_owns_lock = False\<rparr>, w)"
  by (simp add: unique_lock_release_def khmz_noexcept_def)

text \<open>
  Claim C10, as amended. A default-constructed guard and a guard after \<^verbatim>\<open>release()\<close>
  have a null pointer and are unowned. On such a guard \<^verbatim>\<open>lock()\<close> and \<^verbatim>\<open>try_lock()\<close>
  dereference the null pointer in either configuration, and so does \<^verbatim>\<open>unlock()\<close> under
  \<^verbatim>\<open>KHMZ_DISABLE_THROW\<close>; in the default configuration \<^verbatim>\<open>unlock()\<close> throws ``No lock to
  release'' before the dereference. No operation has a branch for the null pointer. On a
  guard that refers to a lock, each operation is defined whenever the member of the lock
  it calls is.
\<close>

theorem unique_lock_null_pointer:
  "m_mutex unique_lock_default_ctor = None \<and> \<not> m_owns_lock unique_lock_default_ctor
   \<and> unique_lock_release cfg g0 w = Returns () (unique_lock_default_ctor, w)
   \<and> (m_mutex g = None \<and> \<not> m_owns_lock g \<longrightarrow>
        unique_lock_lock cfg T g w = Undefined
        \<and> unique_lock_try_lock cfg T g w = Undefined
        \<and> unique_lock_unlock cfg T g w =
            (if KHMZ_DISABLE_THROW cfg then Undefined
             else Throws (runtime_error ''No lock to release at khmz::unique_lock::unlock'') (g, w)))
   \<and> (m_mutex g = Some p \<and> T_lock T (objs w p) \<noteq> Undefined \<longrightarrow>
        unique_lock_lock cfg T g w \<noteq> Undefined)
   \<and> (m_mutex g = Some p \<and> T_try_lock T (objs w p) \<noteq> Undefined \<longrightarrow>
        unique_lock_try_lock cfg T g w \<noteq> Undefined)
   \<and> (m_mutex g = Some p \<and> T_unlock T (objs w p) \<noteq> Undefined \<longrightarrow>
        unique_lock_unlock cfg T g w \<noteq> Undefined)"
proof (intro conjI impI)
  show "m_mutex unique_lock_default_ctor = None" "\<not> m_owns_lock unique_lock_default_ctor"
    by (simp_all add: unique_lock_default_ctor_def)
  show "unique_lock_release cfg g0 w = Returns () (unique_lock_default_ctor, w)"
    by (simp add: unique_lock_release_def khmz_noexcept_def unique_lock_default_ctor_def)
next
  assume h: "m_mutex g = None \<and> \<not> m_owns_lock g"
  then show "unique_lock_lock cfg T g w = Undefined"
    by (simp add: unique_lock_lock_def)
  from h show "unique_lock_try_lock cfg T g w = Undefined"
    by (simp add: unique_lock_try_lock_def)
  from h show "unique_lock_unlock cfg T g w =
            (if KHMZ_DISABLE_THROW cfg then Undefined
             else Throws (runtime_error ''No lock to release at khmz::unique_lock::unlock'') (g, w))"
    by (simp add: unique_lock_unlock_def khmz_throw_def)
next
  assume "m_mutex g = Some p \<and> T_lock T (objs w p) \<noteq> Undefined"
  then show "unique_lock_lock cfg T g w \<noteq> Undefined"
    by (cases "T_lock T (objs w p)")
      (simp_all add: unique_lock_lock_def khmz_throw_def member_call_def Let_def)
next
  assume "m_mutex g = Some p \<and> T_try_lock T (objs w p) \<noteq> Undefined"
  then show "unique_lock_try_lock cfg T g w \<noteq> Undefined"
    by (cases "T_try_lock T (objs w p)")
      (simp_all add: unique_lock_try_lock_def khmz_throw_def member_call_def Let_def)
next
  assume "m_mutex g = Some p \<and> T_unlock T (objs w p) \<noteq> Undefined"
  then show "unique_lock_unlock cfg T g w \<noteq> Undefined"
    by (cases "T_unlock T (objs w p)")
      (simp_all add: unique_lock_unlock_def khmz_throw_def member_call_def Let_def)
qed

theorem unique_lock_null_pointer_witness:
  "m_mutex unique_lock_default_ctor = None \<and> \<not> m_owns_lock unique_lock_default_ctor
   \<and> unique_lock_lock silent_config (khmz_mutex silent_config 1) unique_lock_default_ctor
       (fresh_world \<lparr>m_hMutex = Some Unowned\<rparr>) = Undefined
   \<and> unique_lock_try_lock default_config (khmz_mutex default_config 1) unique_lock_default_ctor
       (fresh_world \<lparr>m_hMutex = Some Unowned\<rparr>) = Undefined
   \<and> unique_lock_unlock silent_config (khmz_mutex silent_config 1) unique_lock_default_ctor
       (fresh_world \<lparr>m_hMutex = Some Unowned\<rparr>) = Undefined
   \<and> m_mutex \<lparr>m_mutex = Some 0, m_owns_lock = False\<rparr> = Some 0
   \<and> T_lock (khmz_mutex default_config 1) (objs (fresh_world \<lparr>m_hMutex = Some Unowned\<rparr>) 0)
       \<noteq> Undefined
   \<and> T_try_lock (khmz_mutex default_config 1) (objs (fresh_world \<lparr>m_hMutex = Some Unowned\<rparr>) 0)
       \<noteq> Undefined
   \<and> T_unlock (khmz_mutex default_config 1) (objs (fresh_world \<lparr>m_hMutex = Some Unowned\<rparr>) 0)
       \<noteq> Undefined
   \<and> unique_lock_lock default_config (khmz_mutex default_config 1)
       \<lparr>m_mutex = Some 0, m_owns_lock = False\<rparr> (fresh_world \<lparr>m_hMutex = Some Unowned\<rparr>)
       \<noteq> Undefined
   \<and> unique_lock_try_lock default_config (khmz_mutex default_config 1)
       \<lparr>m_mutex = Some 0, m_owns_lock = False\<rparr> (fresh_world \<lparr>m_hMutex = Some Unowned\<rparr>)
       \<noteq> Undefined
   \<and> unique_lock_unlock default_config (khmz_mutex default_config 1)
       \<lparr>m_mutex = Some 0, m_owns_lock = False\<rparr> (fresh_world \<lparr>m_hMutex = Some Unowned\<rparr>)
       \<noteq> Undefined"
proof -
  have l: "T_lock (khmz_mutex default_config 1) (objs (fresh_world \<lparr>m_hMutex = Some Unowned\<rparr>) 0)
       \<noteq> Undefined"
    by (simp add: khmz_mutex_def mutex_lock_def WaitForSingleObject_def fresh_world_def)
  have t: "T_try_lock (khmz_mutex default_config 1) (objs (fresh_world \<lparr>m_hMutex = Some Unowned\<rparr>) 0)
       \<noteq> Undefined"
    by (simp add: khmz_mutex_def mutex_try_lock_def WaitForSingleObject_def khmz_noexcept_def
        fresh_world_def)
  have u: "T_unlock (khmz_mutex default_config 1) (objs (fresh_world \<lparr>m_hMutex = Some Unowned\<rparr>) 0)
       \<noteq> Undefined"
    by (simp add: khmz_mutex_def mutex_unlock_def ReleaseMutex_def khmz_throw_def fresh_world_def)
  have s: "KHMZ_DISABLE_THROW silent_config"
    by (simp add: silent_config_def)
  show ?thesis
    using l t u s
      unique_lock_null_pointer [where cfg = silent_config and T = "khmz_mutex silent_config 1"
        and g = unique_lock_default_ctor and w = "fresh_world \<lparr>m_hMutex = Some Unowned\<rparr>"]
      unique_lock_null_pointer [where cfg = default_config and T = "khmz_mutex default_config 1"
        and g = unique_lock_default_ctor and w = "fresh_world \<lparr>m_hMutex = Some Unowned\<rparr>"]
      unique_lock_null_pointer [where cfg = default_config and T = "khmz_mutex default_config 1"
        and g = "\<lparr>m_mutex = Some 0, m_owns_lock = False\<rparr>" and p = 0
        and w = "fresh_world \<lparr>m_hMutex = Some Unowned\<rparr>"]
    by simp
qed

text \<open>
  In the default configuration \<^verbatim>\<open>unlock()\<close> is defined on a default-constructed
  guard, which refers to no lock: it throws.
\<close>

theorem unique_lock_unlock_without_lock_throws:
  "m_mutex unique_lock_default_ctor = None
   \<and> unique_lock_unlock default_config (khmz_mutex default_config 1) unique_lock_default_ctor
       (fresh_world \<lparr>m_hMutex = Some Unowned\<rparr>)
     = Throws (runtime_error ''No lock to release at khmz::unique_lock::unlock'')
         (unique_lock_default_ctor, fresh_world \<lparr>m_hMutex = Some Unowned\<rparr>)"
  by (simp add: unique_lock_unlock_def unique_lock_default_ctor_def khmz_throw_def
      default_config_def)

end
